theory Spec2Isabelle
  imports Main
begin

section \<open>Strings\<close>

text \<open>
  A JavaScript string is modelled by the bytes of its UTF-8 encoding (\<^typ>\<open>string\<close>).
  Every string operation the components use (\<open>startsWith\<close>, \<open>includes\<close>,
  \<open>split\<close>) is called with an ASCII pattern, and there matching on UTF-8 bytes and
  matching on UTF-16 code units agree.
\<close>

text \<open>\<open>s.startsWith(p)\<close>\<close>

fun startsWith :: "string \<Rightarrow> string \<Rightarrow> bool" where
  "startsWith s [] = True"
| "startsWith [] (p # ps) = False"
| "startsWith (c # cs) (p # ps) = (c = p \<and> startsWith cs ps)"

text \<open>\<open>s.includes(p)\<close>\<close>

fun includes_js :: "string \<Rightarrow> string \<Rightarrow> bool" where
  "includes_js [] p = startsWith [] p"
| "includes_js (c # cs) p = (startsWith (c # cs) p \<or> includes_js cs p)"

text \<open>
  \<open>s.split(sep)\<close> for a separator of one character: the pieces between the separators,
  always at least one piece.
\<close>

fun split :: "string \<Rightarrow> char \<Rightarrow> string list" where
  "split [] sep = [[]]"
| "split (c # cs) sep =
     (if c = sep then [] # split cs sep
      else (case split cs sep of
              [] \<Rightarrow> [[c]]
            | p # ps \<Rightarrow> (c # p) # ps))"

section \<open>The platform: URLs\<close>

text \<open>
  The viewer adapters call the browser for \<open>new URL(url, base).href\<close> and for
  \<open>URLSearchParams\<close>, and read \<open>window.location.href\<close>. None of this is code of the
  repository. This section models the first two after the URL Standard (WHATWG): the basic
  URL parser with one function for each of its states, the URL serializer, and the
  \<open>application/x-www-form-urlencoded\<close> serializer. The page location is a parameter of
  every function that reads it.

  An evaluation ends in a value, in an exception (the parser's failure, which \<open>new URL\<close>
  reports as a \<open>TypeError\<close>), or in \<open>Unmodelled\<close> for an input the model leaves out:
  a \<open>file:\<close> URL, an IPv6 host, and a host that needs IDNA processing (a byte beyond
  ASCII or a label that starts with \<open>xn--\<close>).
\<close>

datatype exn = TypeError

datatype 'a completion = Normal 'a | Throw exn | Unmodelled

subsection \<open>Characters\<close>

text \<open>The code point of an ASCII character; the value of a byte.\<close>

definition code :: "char \<Rightarrow> nat" where
  "code c = of_char c"

definition is_ascii_digit :: "char \<Rightarrow> bool" where
  "is_ascii_digit c = (0x30 \<le> code c \<and> code c \<le> 0x39)"

definition is_ascii_upper_alpha :: "char \<Rightarrow> bool" where
  "is_ascii_upper_alpha c = (0x41 \<le> code c \<and> code c \<le> 0x5A)"

definition is_ascii_lower_alpha :: "char \<Rightarrow> bool" where
  "is_ascii_lower_alpha c = (0x61 \<le> code c \<and> code c \<le> 0x7A)"

definition is_ascii_alpha :: "char \<Rightarrow> bool" where
  "is_ascii_alpha c = (is_ascii_upper_alpha c \<or> is_ascii_lower_alpha c)"

definition is_ascii_alphanumeric :: "char \<Rightarrow> bool" where
  "is_ascii_alphanumeric c = (is_ascii_digit c \<or> is_ascii_alpha c)"

definition is_ascii_hex_digit :: "char \<Rightarrow> bool" where
  "is_ascii_hex_digit c =
     (is_ascii_digit c \<or> (0x41 \<le> code c \<and> code c \<le> 0x46) \<or> (0x61 \<le> code c \<and> code c \<le> 0x66))"

definition ascii_lowercase :: "char \<Rightarrow> char" where
  "ascii_lowercase c = (if is_ascii_upper_alpha c then char_of (code c + 0x20) else c)"

definition is_c0_control_or_space :: "char \<Rightarrow> bool" where
  "is_c0_control_or_space c = (code c \<le> 0x20)"

definition is_ascii_tab_or_newline :: "char \<Rightarrow> bool" where
  "is_ascii_tab_or_newline c = (code c = 0x09 \<or> code c = 0x0A \<or> code c = 0x0D)"

subsection \<open>Percent-encoding\<close>

text \<open>
  The percent-encode sets. Each contains every byte above \<open>0x7E\<close>, so the bytes of a
  code point beyond ASCII are all encoded, as the standard's UTF-8 percent-encoding does.
\<close>

definition in_c0_control_set :: "char \<Rightarrow> bool" where
  "in_c0_control_set c = (code c \<le> 0x1F \<or> 0x7E < code c)"

definition in_fragment_set :: "char \<Rightarrow> bool" where
  "in_fragment_set c = (in_c0_control_set c \<or> c \<in> set [CHR '' '', CHR 0x22, CHR ''<'', CHR ''>'', CHR 0x60])"

definition in_query_set :: "char \<Rightarrow> bool" where
  "in_query_set c = (in_c0_control_set c \<or> c \<in> set [CHR '' '', CHR 0x22, CHR ''#'', CHR ''<'', CHR ''>''])"

definition in_special_query_set :: "char \<Rightarrow> bool" where
  "in_special_query_set c = (in_query_set c \<or> c = CHR 0x27)"

definition in_path_set :: "char \<Rightarrow> bool" where
  "in_path_set c = (in_query_set c \<or> c \<in> set [CHR ''?'', CHR ''^'', CHR 0x60, CHR ''{'', CHR ''}''])"

definition in_userinfo_set :: "char \<Rightarrow> bool" where
  "in_userinfo_set c =
     (in_path_set c \<or> c \<in> set [CHR ''/'', CHR '':'', CHR '';'', CHR ''='', CHR ''@'', CHR ''['', CHR 0x5C, CHR '']'', CHR ''|''])"

definition in_component_set :: "char \<Rightarrow> bool" where
  "in_component_set c = (in_userinfo_set c \<or> c \<in> set [CHR ''$'', CHR ''%'', CHR ''&'', CHR ''+'', CHR '',''])"

definition in_urlencoded_set :: "char \<Rightarrow> bool" where
  "in_urlencoded_set c = (in_component_set c \<or> c \<in> set [CHR ''!'', CHR 0x27, CHR ''('', CHR '')'', CHR ''~''])"

definition hex_digit :: "nat \<Rightarrow> char" where
  "hex_digit n = ''0123456789ABCDEF'' ! (n mod 16)"

definition percent_encode_byte :: "char \<Rightarrow> string" where
  "percent_encode_byte c = [CHR ''%'', hex_digit (code c div 16), hex_digit (code c)]"

definition percent_encode :: "(char \<Rightarrow> bool) \<Rightarrow> string \<Rightarrow> string" where
  "percent_encode in_set s = concat (map (\<lambda>c. if in_set c then percent_encode_byte c else [c]) s)"


subsection \<open>URL records\<close>

datatype host = DomainHost string | IPv4Host nat | OpaqueHost string

datatype url_path = OpaquePath string | PathSegments "string list"

record url =
  url_scheme :: string
  url_username :: string
  url_password :: string
  url_host :: "host option"
  url_port :: "nat option"
  url_path :: url_path
  url_query :: "string option"
  url_fragment :: "string option"

definition is_special_scheme :: "string \<Rightarrow> bool" where
  "is_special_scheme s = (s \<in> set [''ftp'', ''file'', ''http'', ''https'', ''ws'', ''wss''])"

definition default_port :: "string \<Rightarrow> nat option" where
  "default_port s =
     (if s = ''ftp'' then Some 21
      else if s = ''http'' then Some 80
      else if s = ''https'' then Some 443
      else if s = ''ws'' then Some 80
      else if s = ''wss'' then Some 443
      else None)"

definition has_opaque_path :: "url \<Rightarrow> bool" where
  "has_opaque_path u = (case url_path u of OpaquePath p \<Rightarrow> True | PathSegments ps \<Rightarrow> False)"

definition append_segment :: "string \<Rightarrow> url \<Rightarrow> url" where
  "append_segment seg u =
     (case url_path u of
        OpaquePath p \<Rightarrow> u
      | PathSegments ps \<Rightarrow> u\<lparr> url_path := PathSegments (ps @ [seg]) \<rparr>)"

definition shorten_path :: "url \<Rightarrow> url" where
  "shorten_path u =
     (case url_path u of
        OpaquePath p \<Rightarrow> u
      | PathSegments ps \<Rightarrow> u\<lparr> url_path := PathSegments (butlast ps) \<rparr>)"

subsection \<open>Numbers\<close>

definition digit_value :: "char \<Rightarrow> nat" where
  "digit_value c =
     (if is_ascii_digit c then code c - 0x30
      else if is_ascii_upper_alpha c then code c - 0x37
      else code c - 0x57)"

definition is_radix_digit :: "nat \<Rightarrow> char \<Rightarrow> bool" where
  "is_radix_digit R c = (is_ascii_hex_digit c \<and> digit_value c < R)"

definition parse_number :: "nat \<Rightarrow> string \<Rightarrow> nat" where
  "parse_number R s = foldl (\<lambda>n c. n * R + digit_value c) 0 s"

fun serialize_integer :: "nat \<Rightarrow> string" where
  "serialize_integer n =
     (if n < 10 then [hex_digit n]
      else serialize_integer (n div 10) @ [hex_digit (n mod 10)])"

subsection \<open>Host parsing\<close>

definition is_forbidden_host_code_point :: "char \<Rightarrow> bool" where
  "is_forbidden_host_code_point c =
     (c \<in> set [CHR 0x00, CHR 0x09, CHR 0x0A, CHR 0x0D, CHR '' '', CHR ''#'', CHR ''/'', CHR '':'',
                CHR ''<'', CHR ''>'', CHR ''?'', CHR ''@'', CHR ''['', CHR 0x5C, CHR '']'', CHR ''^'',
                CHR ''|''])"

definition is_forbidden_domain_code_point :: "char \<Rightarrow> bool" where
  "is_forbidden_domain_code_point c =
     (is_forbidden_host_code_point c \<or> code c \<le> 0x1F \<or> c = CHR ''%'' \<or> code c = 0x7F)"

fun percent_decode :: "string \<Rightarrow> string" where
  "percent_decode [] = []"
| "percent_decode [a] = [a]"
| "percent_decode [a, b] = [a, b]"
| "percent_decode (a # b # c # cs) =
     (if a = CHR ''%'' \<and> is_ascii_hex_digit b \<and> is_ascii_hex_digit c
      then char_of (16 * digit_value b + digit_value c) # percent_decode cs
      else a # percent_decode (b # c # cs))"

definition ipv4_number_parser :: "string \<Rightarrow> nat option" where
  "ipv4_number_parser input =
     (if input = [] then None
      else
        let (R, digits) =
              (if 2 \<le> length input \<and> (startsWith input ''0x'' \<or> startsWith input ''0X'')
               then (16, drop 2 input)
               else if 2 \<le> length input \<and> startsWith input ''0''
               then (8, drop 1 input)
               else (10, input))
        in if digits = [] then Some 0
           else if list_all (is_radix_digit R) digits then Some (parse_number R digits)
           else None)"

definition ends_in_a_number :: "string \<Rightarrow> bool" where
  "ends_in_a_number input =
     (let parts = split input CHR ''.'' in
      if last parts = [] \<and> length parts = 1 then False
      else
        let parts' = (if last parts = [] then butlast parts else parts);
            l = last parts'
        in (l \<noteq> [] \<and> list_all is_ascii_digit l) \<or> ipv4_number_parser l \<noteq> None)"

definition ipv4_parser :: "string \<Rightarrow> nat option" where
  "ipv4_parser input =
     (let parts = split input CHR ''.'';
          parts' = (if last parts = [] \<and> 1 < length parts then butlast parts else parts)
      in if 4 < length parts' then None
         else
           let numbers = map ipv4_number_parser parts' in
           if None \<in> set numbers then None
           else
             let ns = map the numbers in
             if list_ex (\<lambda>n. 255 < n) (butlast ns) then None
             else if 256 ^ (5 - length ns) \<le> last ns then None
             else Some (last ns
                    + sum_list (map (\<lambda>(i, n). n * 256 ^ (3 - i)) (zip [0 ..< length ns - 1] (butlast ns)))))"

definition serialize_ipv4 :: "nat \<Rightarrow> string" where
  "serialize_ipv4 a =
     serialize_integer (a div 256 ^ 3 mod 256) @ ''.'' @
     serialize_integer (a div 256 ^ 2 mod 256) @ ''.'' @
     serialize_integer (a div 256 mod 256) @ ''.'' @
     serialize_integer (a mod 256)"

definition is_punycode_label :: "string \<Rightarrow> bool" where
  "is_punycode_label l = startsWith (map ascii_lowercase l) ''xn--''"

text \<open>
  The host parser. For a domain of ASCII characters with no punycode label, the standard's
  domain-to-ASCII is lower-casing.
\<close>

definition host_parser :: "bool \<Rightarrow> string \<Rightarrow> host completion" where
  "host_parser isOpaque input =
     (if startsWith input ''[''
      then (if last input \<noteq> CHR '']'' then Throw TypeError else Unmodelled)
      else if isOpaque
      then (if list_ex is_forbidden_host_code_point input then Throw TypeError
            else Normal (OpaqueHost (percent_encode in_c0_control_set input)))
      else
        let domain = percent_decode input in
        if list_ex (\<lambda>c. 0x7F < code c) domain then Unmodelled
        else if list_ex is_punycode_label (split domain CHR ''.'') then Unmodelled
        else
          let asciiDomain = map ascii_lowercase domain in
          if asciiDomain = [] \<or> list_ex is_forbidden_domain_code_point asciiDomain
          then Throw TypeError
          else if ends_in_a_number asciiDomain
          then (case ipv4_parser asciiDomain of
                  None \<Rightarrow> Throw TypeError
                | Some a \<Rightarrow> Normal (IPv4Host a))
          else Normal (DomainHost asciiDomain))"

definition serialize_host :: "host \<Rightarrow> string" where
  "serialize_host h =
     (case h of
        DomainHost d \<Rightarrow> d
      | IPv4Host a \<Rightarrow> serialize_ipv4 a
      | OpaqueHost s \<Rightarrow> s)"

subsection \<open>The states of the parser\<close>

text \<open>
  Each state is a function of the URL built so far and of the input that remains, the
  later states first. Where the standard moves the pointer back and changes state, the
  function calls the next state on the same input. The flag \<open>special\<close> says that the
  scheme of the URL is special.
\<close>

definition fragment_state :: "url \<Rightarrow> string \<Rightarrow> url" where
  "fragment_state u cs = u\<lparr> url_fragment := Some (percent_encode in_fragment_set cs) \<rparr>"

definition query_state :: "bool \<Rightarrow> url \<Rightarrow> string \<Rightarrow> url" where
  "query_state special u cs =
     (let buffer = takeWhile (\<lambda>c. c \<noteq> CHR ''#'') cs;
          rest = dropWhile (\<lambda>c. c \<noteq> CHR ''#'') cs;
          u' = u\<lparr> url_query := Some (percent_encode
                 (if special then in_special_query_set else in_query_set) buffer) \<rparr>
      in case rest of
           [] \<Rightarrow> u'
         | c # r \<Rightarrow> fragment_state u' r)"

fun opaque_path_state :: "url \<Rightarrow> string \<Rightarrow> string \<Rightarrow> url" where
  "opaque_path_state u p [] = u\<lparr> url_path := OpaquePath p \<rparr>"
| "opaque_path_state u p (c # cs) =
     (if c = CHR ''?'' then query_state False (u\<lparr> url_path := OpaquePath p \<rparr>) cs
      else if c = CHR ''#'' then fragment_state (u\<lparr> url_path := OpaquePath p \<rparr>) cs
      else if c = CHR '' ''
      then opaque_path_state u
             (p @ (if startsWith cs ''?'' \<or> startsWith cs ''#'' then ''%20'' else '' '')) cs
      else opaque_path_state u (p @ percent_encode in_c0_control_set [c]) cs)"

definition is_single_dot :: "string \<Rightarrow> bool" where
  "is_single_dot buffer = (map ascii_lowercase buffer \<in> set [''.'', ''%2e''])"

definition is_double_dot :: "string \<Rightarrow> bool" where
  "is_double_dot buffer = (map ascii_lowercase buffer \<in> set [''..'', ''.%2e'', ''%2e.'', ''%2e%2e''])"

text \<open>
  The path state at the end of a segment: \<open>at_slash\<close> says that the segment ends at a
  slash (or, in a special URL, at a backslash) and not at \<open>?\<close>, \<open>#\<close> or the end.
\<close>

definition end_segment :: "url \<Rightarrow> string \<Rightarrow> bool \<Rightarrow> url" where
  "end_segment u buffer at_slash =
     (if is_double_dot buffer
      then (if at_slash then shorten_path u else append_segment [] (shorten_path u))
      else if is_single_dot buffer \<and> \<not> at_slash then append_segment [] u
      else if \<not> is_single_dot buffer then append_segment buffer u
      else u)"

fun path_state :: "bool \<Rightarrow> url \<Rightarrow> string \<Rightarrow> string \<Rightarrow> url" where
  "path_state special u buffer [] = end_segment u buffer False"
| "path_state special u buffer (c # cs) =
     (if c = CHR ''/'' \<or> (special \<and> c = CHR 0x5C)
      then path_state special (end_segment u buffer True) [] cs
      else if c = CHR ''?'' then query_state special (end_segment u buffer False) cs
      else if c = CHR ''#'' then fragment_state (end_segment u buffer False) cs
      else path_state special u (buffer @ percent_encode in_path_set [c]) cs)"

definition path_start_state :: "bool \<Rightarrow> url \<Rightarrow> string \<Rightarrow> url" where
  "path_start_state special u cs =
     (case cs of
        [] \<Rightarrow> (if special then path_state special u [] [] else u)
      | c # r \<Rightarrow>
          if special then path_state special u [] (if c = CHR ''/'' \<or> c = CHR 0x5C then r else cs)
          else if c = CHR ''?'' then query_state special u r
          else if c = CHR ''#'' then fragment_state u r
          else path_state special u [] (if c = CHR ''/'' then r else cs))"

definition ends_authority :: "bool \<Rightarrow> char \<Rightarrow> bool" where
  "ends_authority special c =
     (c = CHR ''/'' \<or> c = CHR ''?'' \<or> c = CHR ''#'' \<or> (special \<and> c = CHR 0x5C))"

definition port_state :: "bool \<Rightarrow> url \<Rightarrow> string \<Rightarrow> url completion" where
  "port_state special u cs =
     (let buffer = takeWhile is_ascii_digit cs;
          rest = dropWhile is_ascii_digit cs
      in if rest = [] \<or> ends_authority special (hd rest)
         then (if buffer \<noteq> []
               then (let port = parse_number 10 buffer in
                     if 65535 < port then Throw TypeError
                     else Normal (path_start_state special
                            (u\<lparr> url_port := (if default_port (url_scheme u) = Some port then None
                                              else Some port) \<rparr>) rest))
               else Normal (path_start_state special u rest))
         else Throw TypeError)"

definition host_end :: "bool \<Rightarrow> url \<Rightarrow> string \<Rightarrow> string \<Rightarrow> url completion" where
  "host_end special u buffer rest =
     (if special \<and> buffer = [] then Throw TypeError
      else (case host_parser (\<not> special) buffer of
              Normal h \<Rightarrow> Normal (path_start_state special (u\<lparr> url_host := Some h \<rparr>) rest)
            | Throw e \<Rightarrow> Throw e
            | Unmodelled \<Rightarrow> Unmodelled))"

fun host_state :: "bool \<Rightarrow> url \<Rightarrow> string \<Rightarrow> bool \<Rightarrow> string \<Rightarrow> url completion" where
  "host_state special u buffer insideBrackets [] = host_end special u buffer []"
| "host_state special u buffer insideBrackets (c # cs) =
     (if c = CHR '':'' \<and> \<not> insideBrackets
      then (if buffer = [] then Throw TypeError
            else (case host_parser (\<not> special) buffer of
                    Normal h \<Rightarrow> port_state special (u\<lparr> url_host := Some h \<rparr>) cs
                  | Throw e \<Rightarrow> Throw e
                  | Unmodelled \<Rightarrow> Unmodelled))
      else if ends_authority special c then host_end special u buffer (c # cs)
      else host_state special u (buffer @ [c])
             (if c = CHR ''['' then True else if c = CHR '']'' then False else insideBrackets) cs)"

text \<open>
  The authority state, when it reads \<open>@\<close>: the buffer goes to the username up to the
  first colon and to the password after it.
\<close>

fun add_credentials :: "string \<Rightarrow> bool \<Rightarrow> url \<Rightarrow> bool \<times> url" where
  "add_credentials [] passwordTokenSeen u = (passwordTokenSeen, u)"
| "add_credentials (c # cs) passwordTokenSeen u =
     (if c = CHR '':'' \<and> \<not> passwordTokenSeen then add_credentials cs True u
      else if passwordTokenSeen
      then add_credentials cs passwordTokenSeen
             (u\<lparr> url_password := url_password u @ percent_encode in_userinfo_set [c] \<rparr>)
      else add_credentials cs passwordTokenSeen
             (u\<lparr> url_username := url_username u @ percent_encode in_userinfo_set [c] \<rparr>))"

fun authority_state :: "bool \<Rightarrow> url \<Rightarrow> string \<Rightarrow> bool \<Rightarrow> bool \<Rightarrow> string \<Rightarrow> url completion" where
  "authority_state special u buffer atSignSeen passwordTokenSeen [] =
     (if atSignSeen \<and> buffer = [] then Throw TypeError
      else host_state special u [] False buffer)"
| "authority_state special u buffer atSignSeen passwordTokenSeen (c # cs) =
     (if c = CHR ''@''
      then (case add_credentials (if atSignSeen then ''%40'' @ buffer else buffer) passwordTokenSeen u of
              (seen, u') \<Rightarrow> authority_state special u' [] True seen cs)
      else if ends_authority special c
      then (if atSignSeen \<and> buffer = [] then Throw TypeError
            else host_state special u [] False (buffer @ c # cs))
      else authority_state special u (buffer @ [c]) atSignSeen passwordTokenSeen cs)"

definition special_authority_ignore_slashes_state :: "url \<Rightarrow> string \<Rightarrow> url completion" where
  "special_authority_ignore_slashes_state u cs =
     authority_state True u [] False False
       (dropWhile (\<lambda>c. c = CHR ''/'' \<or> c = CHR 0x5C) cs)"

definition copy_authority :: "url \<Rightarrow> url \<Rightarrow> url" where
  "copy_authority base u =
     u\<lparr> url_username := url_username base, url_password := url_password base,
        url_host := url_host base, url_port := url_port base \<rparr>"

definition relative_slash_state :: "bool \<Rightarrow> url \<Rightarrow> url \<Rightarrow> string \<Rightarrow> url completion" where
  "relative_slash_state special base u cs =
     (case cs of
        [] \<Rightarrow> Normal (path_state special (copy_authority base u) [] [])
      | c # r \<Rightarrow>
          if special \<and> (c = CHR ''/'' \<or> c = CHR 0x5C)
          then special_authority_ignore_slashes_state u r
          else if c = CHR ''/'' then authority_state special u [] False False r
          else Normal (path_state special (copy_authority base u) [] cs))"

definition relative_state :: "url \<Rightarrow> url \<Rightarrow> string \<Rightarrow> url completion" where
  "relative_state base u0 cs =
     (let u = u0\<lparr> url_scheme := url_scheme base \<rparr>;
          special = is_special_scheme (url_scheme u);
          u' = (copy_authority base u)\<lparr> url_path := url_path base, url_query := url_query base \<rparr>
      in case cs of
           [] \<Rightarrow> Normal u'
         | c # r \<Rightarrow>
             if c = CHR ''/'' then relative_slash_state special base u r
             else if special \<and> c = CHR 0x5C then relative_slash_state special base u r
             else if c = CHR ''?'' then Normal (query_state special u' r)
             else if c = CHR ''#'' then Normal (fragment_state u' r)
             else Normal (path_state special (shorten_path (u'\<lparr> url_query := None \<rparr>)) [] cs))"

definition no_scheme_state :: "url option \<Rightarrow> url \<Rightarrow> string \<Rightarrow> url completion" where
  "no_scheme_state base u cs =
     (case base of
        None \<Rightarrow> Throw TypeError
      | Some b \<Rightarrow>
          if has_opaque_path b
          then (case cs of
                  [] \<Rightarrow> Throw TypeError
                | c # r \<Rightarrow>
                    if c = CHR ''#''
                    then Normal (fragment_state
                           (u\<lparr> url_scheme := url_scheme b, url_path := url_path b,
                               url_query := url_query b \<rparr>) r)
                    else Throw TypeError)
          else if url_scheme b \<noteq> ''file'' then relative_state b u cs
          else Unmodelled)"

text \<open>
  The scheme start state and the scheme state: the scheme in lower case and the input after
  its colon, or \<^const>\<open>None\<close> when the input does not begin with a scheme.
\<close>

definition scheme_of :: "string \<Rightarrow> (string \<times> string) option" where
  "scheme_of input =
     (case input of
        [] \<Rightarrow> None
      | c # cs \<Rightarrow>
          if is_ascii_alpha c
          then (let ok = (\<lambda>c. is_ascii_alphanumeric c \<or> c = CHR ''+'' \<or> c = CHR ''-'' \<or> c = CHR ''.'');
                    buffer = takeWhile ok cs;
                    rest = dropWhile ok cs
                in if startsWith rest '':''
                   then Some (map ascii_lowercase (c # buffer), drop 1 rest)
                   else None)
          else None)"

definition scheme_state :: "url option \<Rightarrow> url \<Rightarrow> string \<Rightarrow> string \<Rightarrow> url completion" where
  "scheme_state base u0 scheme remaining =
     (let u = u0\<lparr> url_scheme := scheme \<rparr> in
      if scheme = ''file'' then Unmodelled
      else if is_special_scheme scheme \<and> (case base of None \<Rightarrow> False | Some b \<Rightarrow> url_scheme b = scheme)
      then (if startsWith remaining ''//''
            then special_authority_ignore_slashes_state u (drop 2 remaining)
            else relative_state (the base) u remaining)
      else if is_special_scheme scheme
      then special_authority_ignore_slashes_state u
             (if startsWith remaining ''//'' then drop 2 remaining else remaining)
      else if startsWith remaining ''/''
      then (if startsWith (drop 1 remaining) ''/''
            then authority_state False u [] False False (drop 2 remaining)
            else Normal (path_state False u [] (drop 1 remaining)))
      else Normal (opaque_path_state u [] remaining))"

definition initial_url :: url where
  "initial_url =
     \<lparr> url_scheme = [], url_username = [], url_password = [], url_host = None, url_port = None,
       url_path = PathSegments [], url_query = None, url_fragment = None \<rparr>"

definition strip_c0_control_or_space :: "string \<Rightarrow> string" where
  "strip_c0_control_or_space s =
     rev (dropWhile is_c0_control_or_space (rev (dropWhile is_c0_control_or_space s)))"

text \<open>
  The input as the parser reads it: without leading and trailing C0 controls and spaces,
  and with no tab or newline.
\<close>

definition prepare_input :: "string \<Rightarrow> string" where
  "prepare_input input =
     filter (\<lambda>c. \<not> is_ascii_tab_or_newline c) (strip_c0_control_or_space input)"

definition basic_URL_parser :: "string \<Rightarrow> url option \<Rightarrow> url completion" where
  "basic_URL_parser input base =
     (case scheme_of (prepare_input input) of
        Some (scheme, remaining) \<Rightarrow> scheme_state base initial_url scheme remaining
      | None \<Rightarrow> no_scheme_state base initial_url (prepare_input input))"

subsection \<open>Serialisation\<close>

definition serialize_path :: "url \<Rightarrow> string" where
  "serialize_path u =
     (case url_path u of
        OpaquePath p \<Rightarrow> p
      | PathSegments ps \<Rightarrow> concat (map (\<lambda>seg. CHR ''/'' # seg) ps))"

definition URL_serializer :: "url \<Rightarrow> string" where
  "URL_serializer u =
     url_scheme u @ '':'' @
     (case url_host u of
        Some h \<Rightarrow>
          ''//'' @
          (if url_username u \<noteq> [] \<or> url_password u \<noteq> []
           then url_username u @ (if url_password u \<noteq> [] then '':'' @ url_password u else []) @ ''@''
           else []) @
          serialize_host h @
          (case url_port u of None \<Rightarrow> [] | Some p \<Rightarrow> '':'' @ serialize_integer p)
      | None \<Rightarrow>
          (case url_path u of
             PathSegments ps \<Rightarrow> (if 1 < length ps \<and> hd ps = [] then ''/.'' else [])
           | OpaquePath p \<Rightarrow> [])) @
     serialize_path u @
     (case url_query u of None \<Rightarrow> [] | Some q \<Rightarrow> ''?'' @ q) @
     (case url_fragment u of None \<Rightarrow> [] | Some f \<Rightarrow> ''#'' @ f)"

text \<open>\<open>new URL(url, base).href\<close>\<close>

definition URL_href :: "string \<Rightarrow> string \<Rightarrow> string completion" where
  "URL_href url base =
     (case basic_URL_parser base None of
        Throw e \<Rightarrow> Throw e
      | Unmodelled \<Rightarrow> Unmodelled
      | Normal parsedBase \<Rightarrow>
          (case basic_URL_parser url (Some parsedBase) of
             Throw e \<Rightarrow> Throw e
           | Unmodelled \<Rightarrow> Unmodelled
           | Normal parsedURL \<Rightarrow> Normal (URL_serializer parsedURL)))"


subsection \<open>\<open>URLSearchParams\<close>\<close>

type_synonym URLSearchParams = "(string \<times> string) list"

text \<open>
  \<open>params.set(name, value)\<close>: the first pair of that name gets the value and the
  others of that name go; with no such pair, the pair is appended.
\<close>

fun URLSearchParams_set :: "URLSearchParams \<Rightarrow> string \<Rightarrow> string \<Rightarrow> URLSearchParams" where
  "URLSearchParams_set [] n v = [(n, v)]"
| "URLSearchParams_set ((n', v') # ps) n v =
     (if n' = n then (n, v) # filter (\<lambda>(k, _). k \<noteq> n) ps
      else (n', v') # URLSearchParams_set ps n v)"

definition urlencoded_percent_encode :: "string \<Rightarrow> string" where
  "urlencoded_percent_encode s =
     concat (map (\<lambda>c. if c = CHR '' '' then ''+''
                       else if in_urlencoded_set c then percent_encode_byte c
                       else [c]) s)"

fun join_amp :: "string list \<Rightarrow> string" where
  "join_amp [] = []"
| "join_amp [x] = x"
| "join_amp (x # y # ys) = x @ ''&'' @ join_amp (y # ys)"

definition urlencoded_pair :: "string \<times> string \<Rightarrow> string" where
  "urlencoded_pair p = urlencoded_percent_encode (fst p) @ ''='' @ urlencoded_percent_encode (snd p)"

text \<open>\<open>params.toString()\<close>: the \<open>application/x-www-form-urlencoded\<close> serializer.\<close>

definition URLSearchParams_toString :: "URLSearchParams \<Rightarrow> string" where
  "URLSearchParams_toString ps = join_amp (map urlencoded_pair ps)"

text \<open>
  The \<open>application/x-www-form-urlencoded\<close> parser, which the hosted viewer applies to
  the query of its URL: the pieces between the ampersands that are not empty, each cut at
  its first equals sign, with \<open>+\<close> read as a space and the percent-encoded bytes decoded.
\<close>

definition plus_to_space :: "string \<Rightarrow> string" where
  "plus_to_space s = map (\<lambda>c. if c = CHR ''+'' then CHR '' '' else c) s"

definition urlencoded_parser :: "string \<Rightarrow> (string \<times> string) list" where
  "urlencoded_parser input =
     map (\<lambda>bytes.
            (percent_decode (plus_to_space (takeWhile (\<lambda>c. c \<noteq> CHR ''='') bytes)),
             percent_decode (plus_to_space (drop 1 (dropWhile (\<lambda>c. c \<noteq> CHR ''='') bytes)))))
         (filter (\<lambda>bytes. bytes \<noteq> []) (split input CHR ''&''))"

section \<open>The dataset catalog\<close>

text \<open>
  A descriptor of \<open>data/datasets.js\<close>. The object \<open>topics\<close> is an association list
  from category name to topic paths: a category that is absent reads as \<open>undefined\<close>
  in the source and as \<^const>\<open>None\<close> here.
\<close>

record dataset =
  id' :: string
  name :: string
  source :: string
  description :: string
  thumbnail :: string
  rrdUrl :: string
  topics :: "(string \<times> string list) list"

definition DATASETS :: "dataset list" where
  "DATASETS = [
     \<lparr> id' = ''genrobot-1'',
       name = ''Clean Bowl'',
       source = ''Genrobot'',
       description = ''Bimanual bowl cleaning task demonstrating coordinated manipulation'',
       thumbnail = ''./thumbnails/clean_bowl.jpg'',
       rrdUrl = ''./rrd/clean_bowl.rrd'',
       topics = [
         (''transforms'', [''/robot0/vio/eef_pose'', ''/robot1/vio/eef_pose'']),
         (''cameras'', [''/robot0/sensor/camera0'', ''/robot1/sensor/camera0''])] \<rparr>,
     \<lparr> id' = ''genrobot-2'',
       name = ''Unscrew Bottle Cap and Pour'',
       source = ''Genrobot'',
       description = ''Fine manipulation task: unscrewing cap and pouring liquid'',
       thumbnail = ''./thumbnails/unscrew_bottle_cap_and_pour.jpg'',
       rrdUrl = ''./rrd/unscrew_bottle_cap_and_pour.rrd'',
       topics = [
         (''transforms'', [''/robot0/vio/eef_pose'', ''/robot1/vio/eef_pose'']),
         (''cameras'', [''/robot0/sensor/camera0'', ''/robot1/sensor/camera0''])] \<rparr>,
     \<lparr> id' = ''dm-insert-1'',
       name = ''Memory Cube Insert'',
       source = ''DAIMON'',
       description = ''Precision insertion task with 8-DOF arm and tactile sensing (DM Robotics)'',
       thumbnail = ''./thumbnails/dm_insert_episode_0.jpg'',
       rrdUrl = ''./rrd/dm_insert_episode_0.rrd'',
       topics = [
         (''cameras'', [''/cameras/top'', ''/cameras/wrist'', ''/cameras/tactile'']),
         (''scalars'', [''/observation/state'', ''/action''])] \<rparr>,
     \<lparr> id' = ''dm-tacexo-1'',
       name = ''Fold Towels (TacExo)'',
       source = ''DAIMON'',
       description = ''Bimanual glove manipulation with thumb tactile sensing (TacExo)'',
       thumbnail = ''./thumbnails/tacexo_fold_towels_episode_0.jpg'',
       rrdUrl = ''./rrd/tacexo_fold_towels_episode_0.rrd'',
       topics = [
         (''cameras'', [''/cameras/third_view'', ''/tactile/left_thumb'', ''/tactile/right_thumb'']),
         (''scalars'', [''/fingers''])] \<rparr>,
     \<lparr> id' = ''lumos-task-1'',
       name = ''Object Packing: Light Bulb'',
       source = ''Lumos'',
       description = ''Bimanual manipulation task of packing a single light bulb into a small box'',
       thumbnail = ''./thumbnails/lumos_task1.jpg'',
       rrdUrl = ''./rrd/lumos_task1.rrd'',
       topics = [
         (''transforms'', [''world/left_hand/eef'', ''world/right_hand/eef'']),
         (''cameras'', [''world/left_hand/camera'', ''world/right_hand/camera''])] \<rparr>,
     \<lparr> id' = ''lumos-task-2'',
       name = ''Object Packing: Cups'',
       source = ''Lumos'',
       description = ''Pack 2 water cups into a large box'',
       thumbnail = ''./thumbnails/lumos_task2.jpg'',
       rrdUrl = ''./rrd/lumos_task2.rrd'',
       topics = [
         (''transforms'', [''world/left_hand/eef'', ''world/right_hand/eef'']),
         (''cameras'', [''world/left_hand/camera'', ''world/right_hand/camera''])] \<rparr>
   ]"

text \<open>
  The second catalog file of the repository (\<open>src/unnamed/part_001\<close>), an earlier
  revision with three Genrobot entries.
\<close>

definition DATASETS_part_001 :: "dataset list" where
  "DATASETS_part_001 = [
     \<lparr> id' = ''genrobot-1'',
       name = ''Clean Bowl'',
       source = ''Genrobot'',
       description = ''Bimanual bowl cleaning task demonstrating coordinated manipulation'',
       thumbnail = ''./thumbnails/clean_bowl.jpg'',
       rrdUrl = ''./rrd/clean_bowl.rrd'',
       topics = [
         (''transforms'', [''/robot0/vio/eef_pose'', ''/robot1/vio/eef_pose'']),
         (''cameras'', [''/robot0/sensor/camera0'', ''/robot1/sensor/camera0''])] \<rparr>,
     \<lparr> id' = ''genrobot-2'',
       name = ''Unscrew Bottle Cap and Pour'',
       source = ''Genrobot'',
       description = ''Fine manipulation task: unscrewing cap and pouring liquid'',
       thumbnail = ''./thumbnails/unscrew_bottle_cap_and_pour.jpg'',
       rrdUrl = ''./rrd/unscrew_bottle_cap_and_pour.rrd'',
       topics = [
         (''transforms'', [''/robot0/vio/eef_pose'', ''/robot1/vio/eef_pose'']),
         (''cameras'', [''/robot0/sensor/camera0'', ''/robot1/sensor/camera0''])] \<rparr>,
     \<lparr> id' = ''genrobot-3'',
       name = ''Zip Clothes'',
       source = ''Genrobot'',
       description = ''Precision zipping task with deformable garment handling'',
       thumbnail = ''./thumbnails/zip_clothes.jpg'',
       rrdUrl = ''./rrd/zip_clothes.rrd'',
       topics = [
         (''transforms'', [''/robot0/vio/eef_pose'', ''/robot1/vio/eef_pose'']),
         (''cameras'', [''/robot0/sensor/camera0'', ''/robot1/sensor/camera0''])] \<rparr>
   ]"

section \<open>Badge styles\<close>

text \<open>
  The \<open>switch\<close> on the source label. \<open>UmiGallery.jsx\<close> and \<open>DatasetCard.jsx\<close> each
  declare a function \<open>getSourceBadgeClass\<close> of their own, with different styles.
\<close>

definition getSourceBadgeClass_UmiGallery :: "string \<Rightarrow> string" where
  "getSourceBadgeClass_UmiGallery src =
     (if src = ''Genrobot'' then ''bg-emerald-100 text-emerald-700''
      else if src = ''Lumos'' then ''bg-amber-100 text-amber-700''
      else if src = ''DM Robot'' then ''bg-violet-100 text-violet-700''
      else ''bg-slate-100 text-slate-700'')"

definition getSourceBadgeClass_DatasetCard :: "string \<Rightarrow> string" where
  "getSourceBadgeClass_DatasetCard src =
     (if src = ''Genrobot'' then ''bg-emerald-500/90 text-white''
      else if src = ''Lumos'' then ''bg-amber-500/90 text-white''
      else if src = ''DM Robot'' then ''bg-violet-500/90 text-white''
      else ''bg-slate-500/90 text-white'')"

definition getSourceGradient :: "string \<Rightarrow> string" where
  "getSourceGradient src =
     (if src = ''Genrobot'' then ''bg-gradient-to-br from-emerald-400 to-emerald-600''
      else if src = ''Lumos'' then ''bg-gradient-to-br from-amber-400 to-amber-600''
      else if src = ''DM Robot'' then ''bg-gradient-to-br from-violet-400 to-violet-600''
      else ''bg-gradient-to-br from-slate-400 to-slate-600'')"

section \<open>The gallery controller: selection state\<close>

text \<open>
  \<open>useState(null)\<close>: the one piece of state of \<open>UmiGallery\<close>, a nullable reference to
  a descriptor.
\<close>

record gallery_state =
  selectedDataset :: "dataset option"

definition initial_state :: gallery_state where
  "initial_state = \<lparr> selectedDataset = None \<rparr>"

text \<open>The two states of the controller, under the names the specification gives them.\<close>

abbreviation NoSelection :: gallery_state where
  "NoSelection \<equiv> \<lparr> selectedDataset = None \<rparr>"

abbreviation Selected :: "dataset \<Rightarrow> gallery_state" where
  "Selected d \<equiv> \<lparr> selectedDataset = Some d \<rparr>"

text \<open>
  What a handler leaves behind besides the new state: \<open>setTimeout(f, 100)\<close> with
  \<open>f\<close> the smooth scroll of the viewer section into view.
\<close>

datatype effect = SetTimeout_scrollIntoView nat

definition handleCardClick :: "dataset \<Rightarrow> gallery_state \<Rightarrow> gallery_state \<times> effect list" where
  "handleCardClick dataset st =
     (st\<lparr> selectedDataset := Some dataset \<rparr>, [SetTimeout_scrollIntoView 100])"

text \<open>A sequence of clicks, each on the card of one descriptor.\<close>

fun clicks :: "dataset list \<Rightarrow> gallery_state \<Rightarrow> gallery_state" where
  "clicks [] st = st"
| "clicks (d # ds) st = clicks ds (fst (handleCardClick d st))"

text \<open>The trace of states a sequence of clicks goes through, the starting state first.\<close>

fun trace :: "dataset list \<Rightarrow> gallery_state \<Rightarrow> gallery_state list" where
  "trace [] st = [st]"
| "trace (d # ds) st = st # trace ds (fst (handleCardClick d st))"

section \<open>The catalog at run time\<close>

text \<open>
  The same controller over an explicit store, for what happens to the descriptors while
  the page runs. Loading \<open>data/datasets.js\<close> creates one object for each descriptor
  and the array \<open>DATASETS\<close> of their addresses. The selection state of \<open>UmiGallery\<close>
  holds \<open>null\<close> or the address of a descriptor: \<open>setSelectedDataset(dataset)\<close> stores
  the reference it is given, not a copy.
\<close>

type_synonym addr = nat

record runtime =
  objects :: "addr \<rightharpoonup> dataset"
  DATASETS_array :: "addr list"
  selectedDataset_ref :: "addr option"
  timers :: "effect list"

text \<open>The store after the module is loaded and \<open>UmiGallery\<close> is mounted.\<close>

definition module_loaded :: runtime where
  "module_loaded =
     \<lparr> objects = (\<lambda>a. if a < length DATASETS then Some (DATASETS ! a) else None),
       DATASETS_array = [0 ..< length DATASETS],
       selectedDataset_ref = None,
       timers = [] \<rparr>"

text \<open>
  \<open>handleCardClick(dataset)\<close> with \<open>dataset\<close> a reference: the state setter and
  \<open>setTimeout\<close>. Nothing is written to the object behind the reference.
\<close>

definition handleCardClick_ref :: "addr \<Rightarrow> runtime \<Rightarrow> runtime" where
  "handleCardClick_ref dataset rt =
     rt\<lparr> selectedDataset_ref := Some dataset,
        timers := timers rt @ [SetTimeout_scrollIntoView 100] \<rparr>"

text \<open>
  What the handlers of the source react to: a click on the card at some position of the
  grid, whose handler is \<open>() => handleCardClick(dataset)\<close> for the element of
  \<open>DATASETS\<close> at that position; a timer that fires, whose callback scrolls the viewer
  into view; and a thumbnail that fails to load, whose handler hides the image element.
  The last two write to the document only, which the store does not hold.
\<close>

datatype event = Click nat | TimerFires | ThumbnailError nat

fun step :: "event \<Rightarrow> runtime \<Rightarrow> runtime" where
  "step (Click i) rt =
     (if i < length (DATASETS_array rt) then handleCardClick_ref (DATASETS_array rt ! i) rt
      else rt)"
| "step TimerFires rt = rt\<lparr> timers := drop 1 (timers rt) \<rparr>"
| "step (ThumbnailError i) rt = rt"

fun run :: "event list \<Rightarrow> runtime \<Rightarrow> runtime" where
  "run [] rt = rt"
| "run (e # es) rt = run es (step e rt)"

text \<open>The selection state as \<open>UmiGallery\<close> reads it: the descriptor behind the reference.\<close>

definition selection_of :: "runtime \<Rightarrow> gallery_state" where
  "selection_of rt =
     \<lparr> selectedDataset =
         (case selectedDataset_ref rt of
            None \<Rightarrow> None
          | Some a \<Rightarrow> objects rt a) \<rparr>"

section \<open>Rendered trees\<close>

text \<open>
  A value that may be missing: a prop of a component as JavaScript passes it.
\<close>

datatype jsval = Undefined | Null | Str string

text \<open>\<open>!v\<close> for such a value.\<close>

definition falsy :: "jsval \<Rightarrow> bool" where
  "falsy v = (case v of Undefined \<Rightarrow> True | Null \<Rightarrow> True | Str s \<Rightarrow> s = [])"

text \<open>
  The event handlers of the components: \<open>() => handleCardClick(dataset)\<close> on a card, and
  \<open>(e) => { e.target.style.display = 'none' }\<close> on a thumbnail that fails to load.
\<close>

datatype handler = HandleCardClick dataset | HideTarget

text \<open>
  What a component returns: elements with their props and children, and text. A number
  prop \<open>PNum m e\<close> is \<open>m / 10 ^ e\<close>. A child that is \<open>false\<close>, \<open>null\<close> or
  \<open>undefined\<close> renders nothing and is not in the list; an array or a fragment among the
  children is spliced into it.
\<close>

datatype attr = PStr string | PVal jsval | PNum int nat | PHandler handler | PRef string

datatype vnode = Element string "(string \<times> attr) list" "vnode list" | Text string

text \<open>An element with a class and no other prop.\<close>

definition el :: "string \<Rightarrow> string \<Rightarrow> vnode list \<Rightarrow> vnode" where
  "el tag className children = Element tag [(''className'', PStr className)] children"

text \<open>A child \<open>{v}\<close>.\<close>

definition child :: "jsval \<Rightarrow> vnode list" where
  "child v = (case v of Str s \<Rightarrow> [Text s] | Undefined \<Rightarrow> [] | Null \<Rightarrow> [])"

text \<open>The text nodes of a tree, in order.\<close>

fun texts :: "vnode \<Rightarrow> string list" where
  "texts (Text s) = [s]"
| "texts (Element tag props children) = concat (map texts children)"

definition nl :: string where
  "nl = [CHR 0x0A]"

definition spaces :: "nat \<Rightarrow> string" where
  "spaces n = replicate n CHR '' ''"

section \<open>The viewer adapters\<close>

subsection \<open>\<open>RerunViewer\<close> (\<open>src/unnamed/part_000\<close>)\<close>

text \<open>
  \<open>rrdUrl?.startsWith('http') ? rrdUrl : rrdUrl ? new URL(rrdUrl, window.location.href).href : null\<close>
  (the prop is written \<open>rrdUrl'\<close> here, \<open>rrdUrl\<close> being the field of a descriptor).
\<close>

definition RerunViewer_fullUrl :: "jsval \<Rightarrow> string \<Rightarrow> jsval completion" where
  "RerunViewer_fullUrl rrdUrl' location_href =
     (case rrdUrl' of
        Str s \<Rightarrow>
          if startsWith s ''http'' then Normal rrdUrl'
          else if \<not> falsy rrdUrl'
          then (case URL_href s location_href of
                  Normal href \<Rightarrow> Normal (Str href)
                | Throw e \<Rightarrow> Throw e
                | Unmodelled \<Rightarrow> Unmodelled)
          else Normal Null
      | Undefined \<Rightarrow> Normal Null
      | Null \<Rightarrow> Normal Null)"

definition RerunViewer_placeholder :: vnode where
  "RerunViewer_placeholder =
     el ''div'' ''w-full h-full flex items-center justify-center bg-slate-800 text-slate-400''
       [el ''div'' ''text-center''
          [Element ''svg''
             [(''className'', PStr ''w-16 h-16 mx-auto mb-4 opacity-50''), (''fill'', PStr ''none''),
              (''stroke'', PStr ''currentColor''), (''viewBox'', PStr ''0 0 24 24'')]
             [Element ''path''
                [(''strokeLinecap'', PStr ''round''), (''strokeLinejoin'', PStr ''round''),
                 (''strokeWidth'', PNum 15 1),
                 (''d'', PStr ''M4 16l4.586-4.586a2 2 0 012.828 0L16 16m-2-2l1.586-1.586a2 2 0 012.828 0L20 14m-6-6h.01M6 20h12a2 2 0 002-2V6a2 2 0 00-2-2H6a2 2 0 00-2 2v12a2 2 0 002 2z'')]
                []],
           Element ''p'' [] [Text ''No dataset selected'']]]"

definition RerunViewer :: "jsval \<Rightarrow> string \<Rightarrow> vnode completion" where
  "RerunViewer rrdUrl' location_href =
     (case RerunViewer_fullUrl rrdUrl' location_href of
        Throw e \<Rightarrow> Throw e
      | Unmodelled \<Rightarrow> Unmodelled
      | Normal fullUrl \<Rightarrow>
          if falsy fullUrl then Normal RerunViewer_placeholder
          else Normal
            (el ''div'' ''w-full h-full relative''
               [Element ''WebViewer''
                  [(''width'', PStr ''100%''), (''height'', PStr ''100%''), (''rrd'', PVal fullUrl)] [],
                el ''div'' ''absolute bottom-4 left-4 px-3 py-2 bg-slate-900/80 backdrop-blur-sm rounded-lg text-xs text-slate-300 font-mono max-w-md truncate pointer-events-none''
                  (child rrdUrl')]))"

subsection \<open>\<open>FoxgloveViewer\<close>\<close>

definition baseUrl :: string where
  "baseUrl = ''https://embed.foxglove.dev''"

text \<open>The full URL of the MCAP file, for a reference that is not missing.\<close>

definition fullMcapUrl :: "string \<Rightarrow> string \<Rightarrow> string completion" where
  "fullMcapUrl mcapUrl location_href =
     (if startsWith mcapUrl ''http'' then Normal mcapUrl
      else URL_href mcapUrl location_href)"

text \<open>The data source parameters, for the full URL of the file.\<close>

definition foxglove_params :: "string \<Rightarrow> URLSearchParams" where
  "foxglove_params full =
     URLSearchParams_set (URLSearchParams_set [] ''ds'' ''remote-file'') ''ds.url'' full"

text \<open>The value of the \<open>useMemo\<close>: the embed URL, or \<open>null\<close>.\<close>

definition foxgloveUrl :: "jsval \<Rightarrow> string \<Rightarrow> jsval completion" where
  "foxgloveUrl mcapUrl location_href =
     (case mcapUrl of
        Str s \<Rightarrow>
          if falsy mcapUrl then Normal Null
          else (case fullMcapUrl s location_href of
                  Throw e \<Rightarrow> Throw e
                | Unmodelled \<Rightarrow> Unmodelled
                | Normal full \<Rightarrow>
                    Normal (Str (baseUrl @ ''?'' @ URLSearchParams_toString (foxglove_params full))))
      | Undefined \<Rightarrow> Normal Null
      | Null \<Rightarrow> Normal Null)"

definition FoxgloveViewer_placeholder :: vnode where
  "FoxgloveViewer_placeholder =
     el ''div'' ''w-full h-full flex items-center justify-center bg-slate-800 text-slate-400''
       [el ''div'' ''text-center''
          [Element ''svg''
             [(''className'', PStr ''w-16 h-16 mx-auto mb-4 opacity-50''), (''fill'', PStr ''none''),
              (''stroke'', PStr ''currentColor''), (''viewBox'', PStr ''0 0 24 24'')]
             [Element ''path''
                [(''strokeLinecap'', PStr ''round''), (''strokeLinejoin'', PStr ''round''),
                 (''strokeWidth'', PNum 15 1),
                 (''d'', PStr ''M4 16l4.586-4.586a2 2 0 012.828 0L16 16m-2-2l1.586-1.586a2 2 0 012.828 0L20 14m-6-6h.01M6 20h12a2 2 0 002-2V6a2 2 0 00-2-2H6a2 2 0 00-2 2v12a2 2 0 002 2z'')]
                []],
           Element ''p'' [] [Text ''No dataset selected'']]]"

text \<open>The prop \<open>layoutType\<close> is declared and never read.\<close>

definition FoxgloveViewer :: "jsval \<Rightarrow> jsval \<Rightarrow> string \<Rightarrow> vnode completion" where
  "FoxgloveViewer mcapUrl layoutType location_href =
     (case foxgloveUrl mcapUrl location_href of
        Throw e \<Rightarrow> Throw e
      | Unmodelled \<Rightarrow> Unmodelled
      | Normal url \<Rightarrow>
          if falsy mcapUrl then Normal FoxgloveViewer_placeholder
          else Normal
            (el ''div'' ''w-full h-full relative''
               [Element ''iframe''
                  [(''src'', PVal url), (''title'', PStr ''Foxglove Viewer''),
                   (''className'', PStr ''w-full h-full border-0''), (''allow'', PStr ''fullscreen'')] [],
                el ''div'' ''absolute bottom-4 left-4 px-3 py-2 bg-slate-900/80 backdrop-blur-sm rounded-lg text-xs text-slate-300 font-mono max-w-md truncate''
                  (child mcapUrl)]))"

section \<open>The dataset card\<close>

text \<open>\<open>dataset.topics.transforms?.slice(0, 2).map(topic => <span ...>{topic.split('/').pop()}</span>)\<close>\<close>

definition DatasetCard_topic_tags :: "dataset \<Rightarrow> vnode list" where
  "DatasetCard_topic_tags dataset =
     (case map_of (topics dataset) ''transforms'' of
        None \<Rightarrow> []
      | Some transforms \<Rightarrow>
          map (\<lambda>topic.
                 Element ''span''
                   [(''key'', PStr topic),
                    (''className'', PStr ''px-1.5 py-0.5 bg-slate-100 text-slate-600 rounded text-xs font-mono truncate max-w-[120px]'')]
                   [Text (last (split topic CHR ''/''))])
              (take 2 transforms))"

text \<open>\<open>dataset.topics.tactile && <span ...>tactile</span>\<close>\<close>

definition DatasetCard_tactile_tag :: "dataset \<Rightarrow> vnode list" where
  "DatasetCard_tactile_tag dataset =
     (case map_of (topics dataset) ''tactile'' of
        None \<Rightarrow> []
      | Some tactile \<Rightarrow>
          [el ''span'' ''px-1.5 py-0.5 bg-purple-100 text-purple-600 rounded text-xs''
             [Text ''tactile'']])"

text \<open>\<open>isActive && <div ...>...</div>\<close>\<close>

definition DatasetCard_active_indicator :: "bool \<Rightarrow> vnode list" where
  "DatasetCard_active_indicator isActive =
     (if isActive
      then [el ''div'' ''absolute top-3 left-3''
              [el ''span'' ''px-2 py-1 rounded-full text-xs font-medium bg-blue-500 text-white flex items-center gap-1''
                 [el ''span'' ''w-2 h-2 bg-white rounded-full animate-pulse'' [],
                  Text ''Playing'']]]
      else [])"

definition DatasetCard_thumbnail :: "dataset \<Rightarrow> vnode" where
  "DatasetCard_thumbnail dataset =
     (if thumbnail dataset \<noteq> [] \<and> \<not> includes_js (thumbnail dataset) ''placeholder''
      then Element ''img''
             [(''src'', PStr (thumbnail dataset)), (''alt'', PStr (name dataset)),
              (''className'', PStr ''w-full h-full object-cover''), (''onError'', PHandler HideTarget)] []
      else el ''div'' ''absolute inset-0 flex items-center justify-center''
             [el ''div''
                (nl @ spaces 14 @ ''w-16 h-16 rounded-2xl flex items-center justify-center'' @
                 nl @ spaces 14 @ getSourceGradient (source dataset) @
                 nl @ spaces 12)
                [Element ''svg''
                   [(''className'', PStr ''w-8 h-8 text-white/80''), (''fill'', PStr ''none''),
                    (''stroke'', PStr ''currentColor''), (''viewBox'', PStr ''0 0 24 24'')]
                   [Element ''path''
                      [(''strokeLinecap'', PStr ''round''), (''strokeLinejoin'', PStr ''round''),
                       (''strokeWidth'', PNum 15 1),
                       (''d'', PStr ''M9 3v2m6-2v2M9 19v2m6-2v2M5 9H3m2 6H3m18-6h-2m2 6h-2M7 19h10a2 2 0 002-2V7a2 2 0 00-2-2H7a2 2 0 00-2 2v10a2 2 0 002 2zM9 9h6v6H9V9z'')]
                      []]]])"

definition DatasetCard :: "dataset \<Rightarrow> bool \<Rightarrow> handler \<Rightarrow> vnode" where
  "DatasetCard dataset isActive onClick =
     Element ''button''
       [(''onClick'', PHandler onClick),
        (''className'', PStr
           (nl @ spaces 8 @ ''dataset-card text-left w-full rounded-xl overflow-hidden bg-white border'' @
            nl @ spaces 8 @
              (if isActive then ''ring-2 ring-blue-500 ring-offset-2 border-blue-200''
               else ''border-slate-200 hover:border-slate-300'') @
            nl @ spaces 8 @ ''shadow-sm hover:shadow-lg'' @
            nl @ spaces 6))]
       [el ''div'' ''aspect-video bg-gradient-to-br from-slate-100 to-slate-200 relative overflow-hidden''
          ([DatasetCard_thumbnail dataset,
            el ''div'' ''absolute top-3 right-3''
              [el ''span''
                 (nl @ spaces 12 @ ''px-2 py-1 rounded-full text-xs font-medium backdrop-blur-sm'' @
                  nl @ spaces 12 @ getSourceBadgeClass_DatasetCard (source dataset) @
                  nl @ spaces 10)
                 [Text (source dataset)]]]
           @ DatasetCard_active_indicator isActive),
        el ''div'' ''p-4''
          [el ''h4'' ''font-semibold text-slate-800 mb-1'' [Text (name dataset)],
           el ''p'' ''text-sm text-slate-500 line-clamp-2'' [Text (description dataset)],
           el ''div'' ''mt-3 flex flex-wrap gap-1''
             (DatasetCard_topic_tags dataset @ DatasetCard_tactile_tag dataset)]]"

subsection \<open>Observations on a rendered tree\<close>

text \<open>The class of an element, and whether it truncates its text.\<close>

fun className_of :: "vnode \<Rightarrow> string" where
  "className_of (Element tag props children) =
     (case map_of props ''className'' of Some (PStr c) \<Rightarrow> c | _ \<Rightarrow> [])"
| "className_of (Text s) = []"

definition truncated :: "vnode \<Rightarrow> bool" where
  "truncated v = includes_js (className_of v) ''truncate''"


text \<open>The children of the row of tags of a rendered card.\<close>

fun tag_row :: "vnode \<Rightarrow> vnode list" where
  "tag_row (Element t1 ps1 [v1, Element t2 ps2 [v2, v3, Element t3 ps3 tags]]) = tags"
| "tag_row v = []"

section \<open>The gallery controller: rendering\<close>













section \<open>Properties\<close>

subsection \<open>Evaluation\<close>

text \<open>
  The definitions that the simplifier unfolds to run the URL parser and the serializers on
  a concrete input.
\<close>

lemmas char_class_defs = code_def is_ascii_digit_def is_ascii_upper_alpha_def is_ascii_lower_alpha_def
  is_ascii_alpha_def is_ascii_alphanumeric_def is_ascii_hex_digit_def ascii_lowercase_def
  is_c0_control_or_space_def is_ascii_tab_or_newline_def char_of_def bit_Suc_0_iff

lemmas percent_encode_defs = percent_encode_def percent_encode_byte_def hex_digit_def
  in_c0_control_set_def in_fragment_set_def in_query_set_def in_special_query_set_def
  in_path_set_def in_userinfo_set_def in_component_set_def in_urlencoded_set_def

lemmas host_defs = host_parser_def serialize_host_def is_punycode_label_def ends_in_a_number_def
  ipv4_number_parser_def is_forbidden_domain_code_point_def is_forbidden_host_code_point_def
  parse_number_def digit_value_def is_radix_digit_def

lemmas parser_defs = basic_URL_parser_def prepare_input_def strip_c0_control_or_space_def scheme_of_def
  scheme_state_def no_scheme_state_def relative_state_def relative_slash_state_def
  special_authority_ignore_slashes_state_def copy_authority_def host_end_def port_state_def
  ends_authority_def path_start_state_def end_segment_def is_single_dot_def is_double_dot_def
  query_state_def fragment_state_def initial_url_def is_special_scheme_def default_port_def
  has_opaque_path_def append_segment_def shorten_path_def

lemmas url_defs = URL_href_def URL_serializer_def serialize_path_def parser_defs host_defs
  percent_encode_defs char_class_defs Let_def

subsection \<open>URL resolution on concrete inputs\<close>

lemma startsWith_take: "startsWith s p \<longleftrightarrow> take (length p) s = p"
  by (induction s p rule: startsWith.induct) auto

lemma RerunViewer_fullUrl_http:
  "startsWith r ''http'' \<Longrightarrow> RerunViewer_fullUrl (Str r) L = Normal (Str r)"
  by (simp add: RerunViewer_fullUrl_def)

lemma fullMcapUrl_http:
  "startsWith r ''http'' \<Longrightarrow> fullMcapUrl r L = Normal r"
  by (simp add: fullMcapUrl_def)

lemma RerunViewer_fullUrl_other:
  "r \<noteq> [] \<Longrightarrow> \<not> startsWith r ''http'' \<Longrightarrow>
     RerunViewer_fullUrl (Str r) L = map_completion Str (URL_href r L)"
  by (simp add: RerunViewer_fullUrl_def falsy_def split: completion.split)

lemma fullMcapUrl_other:
  "\<not> startsWith r ''http'' \<Longrightarrow> fullMcapUrl r L = URL_href r L"
  by (simp add: fullMcapUrl_def)

lemma href_clean_bowl:
  "URL_href ''./rrd/clean_bowl.rrd'' ''https://example.org/gallery/'' =
     Normal ''https://example.org/gallery/rrd/clean_bowl.rrd''"
  by (simp add: url_defs)

lemma href_httpdocs:
  "URL_href ''httpdocs/a.rrd'' ''https://example.org/gallery/'' =
     Normal ''https://example.org/gallery/httpdocs/a.rrd''"
  by (simp add: url_defs)



lemma parse_ftp_any_base:
  "basic_URL_parser ''ftp://x/a.rrd'' (Some b) =
     Normal \<lparr> url_scheme = ''ftp'', url_username = [], url_password = [],
              url_host = Some (DomainHost ''x''), url_port = None,
              url_path = PathSegments [''a.rrd''], url_query = None, url_fragment = None \<rparr>"
  by (simp add: parser_defs host_defs percent_encode_defs char_class_defs Let_def)

lemma href_ftp_any_base:
  "basic_URL_parser L None = Normal b \<Longrightarrow> URL_href ''ftp://x/a.rrd'' L = Normal ''ftp://x/a.rrd''"
  by (simp add: URL_href_def parse_ftp_any_base URL_serializer_def serialize_path_def serialize_host_def)

lemma parse_location:
  "basic_URL_parser ''https://example.org/gallery/'' None =
     Normal \<lparr> url_scheme = ''https'', url_username = [], url_password = [],
              url_host = Some (DomainHost ''example.org''), url_port = None,
              url_path = PathSegments [''gallery'', []], url_query = None, url_fragment = None \<rparr>"
  by (simp add: parser_defs host_defs percent_encode_defs char_class_defs Let_def)





lemma foxglove_params_two: "foxglove_params u = [(''ds'', ''remote-file''), (''ds.url'', u)]"
  by (simp add: foxglove_params_def)

lemma foxglove_query:
  "URLSearchParams_toString [(''ds'', ''remote-file''), (''ds.url'', u)] =
     ''ds=remote-file&ds.url='' @ urlencoded_percent_encode u"
  by (simp add: URLSearchParams_toString_def urlencoded_pair_def urlencoded_percent_encode_def
      percent_encode_defs char_class_defs)

lemma urlencoded_example:
  "urlencoded_percent_encode ''https://x/a.mcap'' = ''https%3A%2F%2Fx%2Fa.mcap''"
  by (simp add: urlencoded_percent_encode_def percent_encode_defs char_class_defs)

subsection \<open>The query string parses back\<close>

text \<open>
  What \<open>URLSearchParams\<close> serialises, the \<open>application/x-www-form-urlencoded\<close>
  parser reads back: the same pairs, in the same order.
\<close>

lemma hex_digits_all:
  "list_all (\<lambda>n. digit_value (hex_digit n) = n \<and> is_ascii_hex_digit (hex_digit n)
       \<and> hex_digit n \<notin> set ''+&=%'') [0 ..< 16]"
  by (simp add: upt_rec hex_digit_def digit_value_def char_class_defs)

lemma hex_digit_value:
  assumes "n < 16"
  shows "digit_value (hex_digit n) = n \<and> is_ascii_hex_digit (hex_digit n)
         \<and> hex_digit n \<noteq> CHR ''+'' \<and> hex_digit n \<noteq> CHR ''&'' \<and> hex_digit n \<noteq> CHR ''=''
         \<and> hex_digit n \<noteq> CHR ''%''"
proof -
  have "n \<in> set [0 ..< 16]"
    using assms by simp
  then show ?thesis
    using hex_digits_all unfolding list_all_iff by fastforce
qed

lemma code_less_256: "code c < 256"
  by (simp add: code_def)

lemma percent_decode_byte:
  "percent_decode (percent_encode_byte c @ rest) = c # percent_decode rest"
proof -
  have hi: "code c div 16 < 16"
    using code_less_256 [of c] by simp
  have lo: "hex_digit (code c) = hex_digit (code c mod 16)"
    by (simp add: hex_digit_def)
  have "char_of (16 * (code c div 16) + code c mod 16) = c"
    by (simp add: code_def)
  then show ?thesis
    using hex_digit_value [OF hi] hex_digit_value [of "code c mod 16"]
    by (simp add: percent_encode_byte_def lo)
qed

lemma percent_decode_other:
  "c \<noteq> CHR ''%'' \<Longrightarrow> percent_decode (c # cs) = c # percent_decode cs"
  by (cases cs rule: percent_decode.cases) auto

lemma plus_to_space_Cons:
  "plus_to_space (c # cs) = (if c = CHR ''+'' then CHR '' '' else c) # plus_to_space cs"
  by (simp add: plus_to_space_def)

lemma plus_to_space_byte:
  "plus_to_space (percent_encode_byte c @ rest) = percent_encode_byte c @ plus_to_space rest"
  using hex_digit_value [of "code c div 16"] hex_digit_value [of "code c mod 16"] code_less_256 [of c]
  by (simp add: plus_to_space_def percent_encode_byte_def hex_digit_def)

lemma not_urlencoded_set:
  "\<not> in_urlencoded_set c \<Longrightarrow> c \<noteq> CHR ''+'' \<and> c \<noteq> CHR ''%'' \<and> c \<noteq> CHR ''&'' \<and> c \<noteq> CHR ''=''"
  by (auto simp add: percent_encode_defs)

lemma urlencoded_roundtrip:
  "percent_decode (plus_to_space (urlencoded_percent_encode s)) = s"
proof (induction s)
  case Nil
  then show ?case by (simp add: urlencoded_percent_encode_def plus_to_space_def)
next
  case (Cons c s)
  have step: "urlencoded_percent_encode (c # s) =
      (if c = CHR '' '' then ''+'' else if in_urlencoded_set c then percent_encode_byte c else [c])
      @ urlencoded_percent_encode s"
    by (simp add: urlencoded_percent_encode_def)
  show ?case
  proof (cases "c = CHR '' ''")
    case True
    have "urlencoded_percent_encode (c # s) = CHR ''+'' # urlencoded_percent_encode s"
      using True by (simp add: urlencoded_percent_encode_def)
    then show ?thesis
      using True Cons.IH by (simp add: plus_to_space_Cons percent_decode_other)
  next
    case False
    show ?thesis
    proof (cases "in_urlencoded_set c")
      case True
      then show ?thesis
        using False Cons.IH by (simp add: step plus_to_space_byte percent_decode_byte)
    next
      case nin: False
      have "plus_to_space (c # urlencoded_percent_encode s) = c # plus_to_space (urlencoded_percent_encode s)"
        using not_urlencoded_set [OF nin] by (simp add: plus_to_space_def)
      then show ?thesis
        using False nin Cons.IH not_urlencoded_set [OF nin] by (simp add: step percent_decode_other)
    qed
  qed
qed

lemma urlencoded_no_separator:
  "CHR ''&'' \<notin> set (urlencoded_percent_encode s) \<and> CHR ''='' \<notin> set (urlencoded_percent_encode s)"
proof (induction s)
  case Nil
  then show ?case by (simp add: urlencoded_percent_encode_def)
next
  case (Cons c s)
  have step: "urlencoded_percent_encode (c # s) =
      (if c = CHR '' '' then ''+'' else if in_urlencoded_set c then percent_encode_byte c else [c])
      @ urlencoded_percent_encode s"
    by (simp add: urlencoded_percent_encode_def)
  have "code c div 16 < 16" using code_less_256 [of c] by simp
  then show ?case
    using Cons.IH hex_digit_value [of "code c div 16"] hex_digit_value [of "code c mod 16"]
      not_urlencoded_set [of c]
    by (auto simp add: step percent_encode_byte_def hex_digit_def)
qed

lemma split_no_sep: "sep \<notin> set s \<Longrightarrow> split s sep = [s]"
  by (induction s) auto

lemma split_append_sep: "sep \<notin> set a \<Longrightarrow> split (a @ sep # b) sep = a # split b sep"
  by (induction a) auto

lemma urlencoded_pair_no_amp: "CHR ''&'' \<notin> set (urlencoded_pair p)"
  using urlencoded_no_separator [of "fst p"] urlencoded_no_separator [of "snd p"]
  by (simp add: urlencoded_pair_def)

lemma urlencoded_pair_parse:
  "(percent_decode (plus_to_space (takeWhile (\<lambda>c. c \<noteq> CHR ''='') (urlencoded_pair p))),
    percent_decode (plus_to_space (drop (Suc 0) (dropWhile (\<lambda>c. c \<noteq> CHR ''='') (urlencoded_pair p))))) = p"
proof -
  have n: "\<forall>c \<in> set (urlencoded_percent_encode (fst p)). c \<noteq> CHR ''=''"
    using urlencoded_no_separator [of "fst p"] by auto
  have "takeWhile (\<lambda>c. c \<noteq> CHR ''='') (urlencoded_pair p) = urlencoded_percent_encode (fst p)"
    using n by (simp add: urlencoded_pair_def takeWhile_append2)
  moreover have "dropWhile (\<lambda>c. c \<noteq> CHR ''='') (urlencoded_pair p) = ''='' @ urlencoded_percent_encode (snd p)"
    using n by (simp add: urlencoded_pair_def dropWhile_append2)
  ultimately show ?thesis
    by (simp add: urlencoded_roundtrip)
qed

lemma split_join_amp:
  "split (join_amp (map urlencoded_pair ps)) CHR ''&'' = (if ps = [] then [[]] else map urlencoded_pair ps)"
proof (induction ps rule: induct_list012)
  case 1
  then show ?case by simp
next
  case (2 p)
  then show ?case by (simp add: split_no_sep urlencoded_pair_no_amp)
next
  case (3 p q ps)
  then show ?case by (simp add: split_append_sep urlencoded_pair_no_amp)
qed

lemma urlencoded_pair_not_Nil: "urlencoded_pair p \<noteq> []"
  by (simp add: urlencoded_pair_def)

lemma urlencoded_parser_toString: "urlencoded_parser (URLSearchParams_toString ps) = ps"
proof -
  have ts: "URLSearchParams_toString ps = join_amp (map urlencoded_pair ps)"
    by (simp add: URLSearchParams_toString_def)
  have f: "filter (\<lambda>bytes. bytes \<noteq> []) (map urlencoded_pair ps) = map urlencoded_pair ps"
    by (simp add: filter_id_conv urlencoded_pair_not_Nil)
  show ?thesis
  proof (cases "ps = []")
    case True
    then show ?thesis
      by (simp add: urlencoded_parser_def URLSearchParams_toString_def)
  next
    case False
    then show ?thesis
      by (simp add: urlencoded_parser_def ts split_join_amp f comp_def urlencoded_pair_parse)
  qed
qed

subsection \<open>Rendering\<close>



lemma DatasetCard_tag_row:
  "tag_row (DatasetCard d a h) = DatasetCard_topic_tags d @ DatasetCard_tactile_tag d"
  by (simp add: DatasetCard_def el_def)

lemma topic_tags_truncated: "filter truncated (DatasetCard_topic_tags d) = DatasetCard_topic_tags d"
  by (simp add: DatasetCard_topic_tags_def truncated_def split: option.split)

lemma tactile_tag_not_truncated: "filter truncated (DatasetCard_tactile_tag d) = []"
  by (simp add: DatasetCard_tactile_tag_def truncated_def el_def split: option.split)

lemma split_not_Nil: "split s sep \<noteq> []"
  by (induction s) (auto split: list.split)


subsection \<open>The catalog at run time\<close>

lemma step_store:
  "objects (step e rt) = objects rt \<and> DATASETS_array (step e rt) = DATASETS_array rt"
  by (cases e) (simp_all add: handleCardClick_ref_def)

lemma run_store:
  "objects (run es rt) = objects rt \<and> DATASETS_array (run es rt) = DATASETS_array rt"
  by (induction es arbitrary: rt) (simp_all add: step_store)

lemma step_selected_in_catalog:
  "set_option (selectedDataset_ref rt) \<subseteq> set (DATASETS_array rt)
     \<Longrightarrow> set_option (selectedDataset_ref (step e rt)) \<subseteq> set (DATASETS_array (step e rt))"
  by (cases e) (simp_all add: handleCardClick_ref_def)

lemma run_selected_in_catalog:
  "set_option (selectedDataset_ref rt) \<subseteq> set (DATASETS_array rt)
     \<Longrightarrow> set_option (selectedDataset_ref (run es rt)) \<subseteq> set (DATASETS_array (run es rt))"
proof (induction es arbitrary: rt)
  case Nil
  then show ?case by simp
next
  case (Cons e es)
  show ?case
    using Cons.IH [OF step_selected_in_catalog [OF Cons.prems]] by simp
qed

lemma module_loaded_catalog:
  "map (objects module_loaded) (DATASETS_array module_loaded) = map Some DATASETS
   \<and> dom (objects module_loaded) = set (DATASETS_array module_loaded)
   \<and> distinct (DATASETS_array module_loaded)"
  by (auto simp add: module_loaded_def map_upt_eqI dom_def intro!: nth_equalityI split: if_splits)

lemma click_simulates:
  assumes "i < length DATASETS" and "objects rt = objects module_loaded"
    and "DATASETS_array rt = DATASETS_array module_loaded"
  shows "selection_of (step (Click i) rt) = fst (handleCardClick (DATASETS ! i) (selection_of rt))
         \<and> timers (step (Click i) rt) = timers rt @ snd (handleCardClick (DATASETS ! i) (selection_of rt))"
  using assms
  by (simp add: selection_of_def handleCardClick_ref_def handleCardClick_def module_loaded_def)

subsection \<open>The properties of the specification\<close>

text \<open>
  C1: A relative reference is to be resolved against the page location, as the adapters'
  own comments say (\<open>Local path - construct full URL from current location\<close>). At
  the page location \<open>https://example.org/gallery/\<close> the reference
  \<open>httpdocs/a.rrd\<close>, which begins with no scheme, stays as it is in both adapters,
  where the resolution is \<open>https://example.org/gallery/httpdocs/a.rrd\<close>. The
  reference \<open>./rrd/clean_bowl.rrd\<close> resolves to
  \<open>https://example.org/gallery/rrd/clean_bowl.rrd\<close> in both.
\<close>

theorem C1_relative_reference_with_http_prefix:
  "scheme_of ''httpdocs/a.rrd'' = None
   \<and> RerunViewer_fullUrl (Str ''httpdocs/a.rrd'') ''https://example.org/gallery/'' =
        Normal (Str ''httpdocs/a.rrd'')
   \<and> fullMcapUrl ''httpdocs/a.rrd'' ''https://example.org/gallery/'' = Normal ''httpdocs/a.rrd''
   \<and> URL_href ''httpdocs/a.rrd'' ''https://example.org/gallery/'' =
        Normal ''https://example.org/gallery/httpdocs/a.rrd''
   \<and> RerunViewer_fullUrl (Str ''./rrd/clean_bowl.rrd'') ''https://example.org/gallery/'' =
        Normal (Str ''https://example.org/gallery/rrd/clean_bowl.rrd'')
   \<and> fullMcapUrl ''./rrd/clean_bowl.rrd'' ''https://example.org/gallery/'' =
        Normal ''https://example.org/gallery/rrd/clean_bowl.rrd''"
proof -
  have "scheme_of ''httpdocs/a.rrd'' = None"
    by (simp add: scheme_of_def char_class_defs)
  moreover have "RerunViewer_fullUrl (Str ''httpdocs/a.rrd'') ''https://example.org/gallery/'' =
        Normal (Str ''httpdocs/a.rrd'')"
    by (simp add: RerunViewer_fullUrl_http)
  moreover have "fullMcapUrl ''httpdocs/a.rrd'' ''https://example.org/gallery/'' = Normal ''httpdocs/a.rrd''"
    by (simp add: fullMcapUrl_http)
  moreover have "RerunViewer_fullUrl (Str ''./rrd/clean_bowl.rrd'') ''https://example.org/gallery/'' =
        Normal (Str ''https://example.org/gallery/rrd/clean_bowl.rrd'')"
    by (simp add: RerunViewer_fullUrl_other href_clean_bowl)
  moreover have "fullMcapUrl ''./rrd/clean_bowl.rrd'' ''https://example.org/gallery/'' =
        Normal ''https://example.org/gallery/rrd/clean_bowl.rrd''"
    by (simp add: fullMcapUrl_other href_clean_bowl)
  ultimately show ?thesis
    using href_httpdocs by blast
qed




text \<open>
  C3: For a reference that is not empty and resolves to \<open>u\<close>, the iframe adapter sets
  the two parameters \<open>ds = remote-file\<close> and \<open>ds.url = u\<close> and nothing else, and
  its target URL is \<open>https://embed.foxglove.dev\<close>, a question mark,
  \<open>ds=remote-file&ds.url=\<close> and \<open>u\<close> percent-encoded; that is the \<open>src\<close> of the
  iframe it renders. The query parses back to these two parameters, \<open>u\<close> as it was.
\<close>

theorem C3_foxglove_target_url:
  "r \<noteq> [] \<Longrightarrow> fullMcapUrl r L = Normal u \<Longrightarrow>
     foxglove_params u = [(''ds'', ''remote-file''), (''ds.url'', u)]
     \<and> foxgloveUrl (Str r) L =
         Normal (Str (''https://embed.foxglove.dev?ds=remote-file&ds.url='' @ urlencoded_percent_encode u))
     \<and> FoxgloveViewer (Str r) layoutType L =
         Normal (el ''div'' ''w-full h-full relative''
           [Element ''iframe''
              [(''src'', PVal (Str (''https://embed.foxglove.dev?ds=remote-file&ds.url='' @
                                     urlencoded_percent_encode u))),
               (''title'', PStr ''Foxglove Viewer''),
               (''className'', PStr ''w-full h-full border-0''), (''allow'', PStr ''fullscreen'')] [],
            el ''div'' ''absolute bottom-4 left-4 px-3 py-2 bg-slate-900/80 backdrop-blur-sm rounded-lg text-xs text-slate-300 font-mono max-w-md truncate''
              [Text r]])
     \<and> urlencoded_parser (''ds=remote-file&ds.url='' @ urlencoded_percent_encode u) =
         [(''ds'', ''remote-file''), (''ds.url'', u)]"
proof -
  have "urlencoded_parser (''ds=remote-file&ds.url='' @ urlencoded_percent_encode u) =
         [(''ds'', ''remote-file''), (''ds.url'', u)]"
    using urlencoded_parser_toString [of "[(''ds'', ''remote-file''), (''ds.url'', u)]"]
    by (simp add: foxglove_query)
  then show "r \<noteq> [] \<Longrightarrow> fullMcapUrl r L = Normal u \<Longrightarrow> ?thesis"
    by (simp add: foxglove_params_two FoxgloveViewer_def foxgloveUrl_def falsy_def foxglove_query
        baseUrl_def child_def)
qed

theorem C3_foxglove_target_url_witness:
  "''https://x/a.mcap'' \<noteq> []
   \<and> fullMcapUrl ''https://x/a.mcap'' ''https://example.org/gallery/'' = Normal ''https://x/a.mcap''
   \<and> foxgloveUrl (Str ''https://x/a.mcap'') ''https://example.org/gallery/'' =
        Normal (Str ''https://embed.foxglove.dev?ds=remote-file&ds.url=https%3A%2F%2Fx%2Fa.mcap'')
   \<and> urlencoded_parser ''ds=remote-file&ds.url=https%3A%2F%2Fx%2Fa.mcap'' =
        [(''ds'', ''remote-file''), (''ds.url'', ''https://x/a.mcap'')]"
proof -
  have h1: "''https://x/a.mcap'' \<noteq> []" by simp
  have h2: "fullMcapUrl ''https://x/a.mcap'' ''https://example.org/gallery/'' = Normal ''https://x/a.mcap''"
    by (simp add: fullMcapUrl_def)
  show ?thesis
    using h1 h2 C3_foxglove_target_url [OF h1 h2, of Undefined] urlencoded_example by simp
qed

text \<open>
  For \<open>https://x/a.mcap\<close> the target URL has no slash between the host and the
  question mark.
\<close>

theorem C3_target_url_counterexample:
  "foxgloveUrl (Str ''https://x/a.mcap'') ''https://example.org/gallery/'' =
     Normal (Str ''https://embed.foxglove.dev?ds=remote-file&ds.url=https%3A%2F%2Fx%2Fa.mcap'')
   \<and> foxgloveUrl (Str ''https://x/a.mcap'') ''https://example.org/gallery/'' \<noteq>
     Normal (Str ''https://embed.foxglove.dev/?ds=remote-file&ds.url=https%3A%2F%2Fx%2Fa.mcap'')"
  by (simp add: foxgloveUrl_def falsy_def fullMcapUrl_def baseUrl_def foxglove_params_two foxglove_query
      urlencoded_example)

text \<open>
  C4: A click on the card of \<open>d\<close> moves the controller to \<open>Selected(d)\<close> from every
  state. From the initial state, clicking \<open>X\<close> and then \<open>Y\<close> goes through
  \<open>NoSelection\<close>, \<open>Selected(X)\<close>, \<open>Selected(Y)\<close>; clicking \<open>X\<close> twice ends in the
  state the first click gave.
\<close>

theorem C4_selectDataset_unconditional:
  "fst (handleCardClick d s) = Selected d
   \<and> trace [X, Y] initial_state = [NoSelection, Selected X, Selected Y]
   \<and> trace [X, X] initial_state = [NoSelection, Selected X, Selected X]
   \<and> fst (handleCardClick X (fst (handleCardClick X s))) = fst (handleCardClick X s)
   \<and> clicks [X, Y] initial_state = Selected Y"
  by (simp add: handleCardClick_def initial_state_def)

text \<open>
  C5: For a reference that is \<open>null\<close>, \<open>undefined\<close> or the empty string, each
  adapter returns its placeholder, with the text \<open>No dataset selected\<close>, and throws
  nothing; the two placeholders are the same tree.
\<close>

theorem C5_missing_reference_placeholder:
  "falsy ref \<Longrightarrow>
     RerunViewer ref L = Normal RerunViewer_placeholder
     \<and> FoxgloveViewer ref layoutType L = Normal FoxgloveViewer_placeholder
     \<and> RerunViewer_placeholder = FoxgloveViewer_placeholder
     \<and> texts RerunViewer_placeholder = [''No dataset selected'']"
  by (cases ref)
     (simp_all add: falsy_def RerunViewer_def RerunViewer_fullUrl_def FoxgloveViewer_def
        foxgloveUrl_def RerunViewer_placeholder_def FoxgloveViewer_placeholder_def el_def)

theorem C5_missing_reference_placeholder_witness:
  "falsy Null \<and> falsy Undefined \<and> falsy (Str [])
   \<and> RerunViewer Null ''https://example.org/gallery/'' = Normal RerunViewer_placeholder
   \<and> RerunViewer Undefined ''https://example.org/gallery/'' = Normal RerunViewer_placeholder
   \<and> RerunViewer (Str []) ''https://example.org/gallery/'' = Normal RerunViewer_placeholder
   \<and> FoxgloveViewer Null Undefined ''https://example.org/gallery/'' = Normal RerunViewer_placeholder
   \<and> FoxgloveViewer Undefined Undefined ''https://example.org/gallery/'' = Normal RerunViewer_placeholder
   \<and> FoxgloveViewer (Str []) Undefined ''https://example.org/gallery/'' = Normal RerunViewer_placeholder"
proof -
  have f: "falsy Null" "falsy Undefined" "falsy (Str [])"
    by (simp_all add: falsy_def)
  show ?thesis
    using f
      C5_missing_reference_placeholder [OF f(1), of "''https://example.org/gallery/''" Undefined]
      C5_missing_reference_placeholder [OF f(2), of "''https://example.org/gallery/''" Undefined]
      C5_missing_reference_placeholder [OF f(3), of "''https://example.org/gallery/''" Undefined]
    by simp
qed


text \<open>
  C7: Any two different descriptors of the catalog \<open>DATASETS\<close> have different ids
  (and so do those of the earlier catalog file). After any sequence of clicks, timers and
  thumbnail errors,
  the store holds the objects it held when the module was loaded, each with the value it
  had, and the array \<open>DATASETS\<close> holds the same addresses in the same order: no
  descriptor is created, changed or removed. The selection is \<open>null\<close> or the address
  of an element of the array, and a click acts on the selection as \<open>handleCardClick\<close>
  does on the descriptor at the card's position.
\<close>

theorem C7_catalog_ids_unique:
  "(\<forall>d1 \<in> set DATASETS. \<forall>d2 \<in> set DATASETS. d1 \<noteq> d2 \<longrightarrow> id' d1 \<noteq> id' d2)
   \<and> distinct (map id' DATASETS)
   \<and> distinct (map id' DATASETS_part_001)
   \<and> objects (run es module_loaded) = objects module_loaded
   \<and> DATASETS_array (run es module_loaded) = DATASETS_array module_loaded
   \<and> map (objects (run es module_loaded)) (DATASETS_array (run es module_loaded)) = map Some DATASETS
   \<and> dom (objects (run es module_loaded)) = set (DATASETS_array (run es module_loaded))
   \<and> set_option (selectedDataset_ref (run es module_loaded))
        \<subseteq> set (DATASETS_array (run es module_loaded))
   \<and> (i < length DATASETS \<longrightarrow>
         selection_of (step (Click i) (run es module_loaded)) =
           fst (handleCardClick (DATASETS ! i) (selection_of (run es module_loaded))))"
proof -
  have d: "distinct (map id' DATASETS)"
    by (simp add: DATASETS_def)
  have "inj_on id' (set DATASETS)"
    using d by (simp add: distinct_map)
  then have u: "\<forall>d1 \<in> set DATASETS. \<forall>d2 \<in> set DATASETS. d1 \<noteq> d2 \<longrightarrow> id' d1 \<noteq> id' d2"
    by (auto dest: inj_onD)
  have p: "distinct (map id' DATASETS_part_001)"
    by (simp add: DATASETS_part_001_def)
  have s: "objects (run es module_loaded) = objects module_loaded"
          "DATASETS_array (run es module_loaded) = DATASETS_array module_loaded"
    by (simp_all add: run_store)
  have sel: "set_option (selectedDataset_ref (run es module_loaded))
        \<subseteq> set (DATASETS_array (run es module_loaded))"
    by (rule run_selected_in_catalog) (simp add: module_loaded_def)
  have sim: "i < length DATASETS \<longrightarrow>
         selection_of (step (Click i) (run es module_loaded)) =
           fst (handleCardClick (DATASETS ! i) (selection_of (run es module_loaded)))"
    using click_simulates [of i "run es module_loaded"] s by blast
  show ?thesis
    using u d p s sel sim module_loaded_catalog by simp
qed

theorem C7_catalog_ids_unique_witness:
  "DATASETS ! 0 \<in> set DATASETS \<and> DATASETS ! 4 \<in> set DATASETS
   \<and> DATASETS ! 0 \<noteq> DATASETS ! 4
   \<and> id' (DATASETS ! 0) = ''genrobot-1'' \<and> id' (DATASETS ! 4) = ''lumos-task-1''
   \<and> id' (DATASETS ! 0) \<noteq> id' (DATASETS ! 4)
   \<and> (4::nat) < length DATASETS
   \<and> selectedDataset_ref (run [Click 0, TimerFires, ThumbnailError 2, Click 4] module_loaded) = Some 4
   \<and> objects (run [Click 0, TimerFires, ThumbnailError 2, Click 4] module_loaded) = objects module_loaded
   \<and> selection_of (run [Click 0, TimerFires, ThumbnailError 2, Click 4] module_loaded) = Selected (DATASETS ! 4)
   \<and> selection_of (step (Click 4) (run [Click 0, TimerFires, ThumbnailError 2] module_loaded)) =
        fst (handleCardClick (DATASETS ! 4) (selection_of (run [Click 0, TimerFires, ThumbnailError 2] module_loaded)))"
proof -
  have m0: "DATASETS ! 0 \<in> set DATASETS" and m4: "DATASETS ! 4 \<in> set DATASETS"
    by (simp_all add: DATASETS_def)
  have ne: "DATASETS ! 0 \<noteq> DATASETS ! 4"
    by (simp add: DATASETS_def)
  have l: "(4::nat) < length DATASETS"
    by (simp add: DATASETS_def)
  note t = C7_catalog_ids_unique [of "[Click 0, TimerFires, ThumbnailError 2, Click 4]" 4]
  note t' = C7_catalog_ids_unique [of "[Click 0, TimerFires, ThumbnailError 2]" 4]
  have "id' (DATASETS ! 0) \<noteq> id' (DATASETS ! 4)"
    using t m0 m4 ne by blast
  moreover have "id' (DATASETS ! 0) = ''genrobot-1''" "id' (DATASETS ! 4) = ''lumos-task-1''"
    by (simp_all add: DATASETS_def)
  moreover have "selectedDataset_ref (run [Click 0, TimerFires, ThumbnailError 2, Click 4] module_loaded) = Some 4"
    by (simp add: module_loaded_def handleCardClick_ref_def DATASETS_def)
  moreover have "objects (run [Click 0, TimerFires, ThumbnailError 2, Click 4] module_loaded) = objects module_loaded"
    using t by blast
  moreover have "selection_of (run [Click 0, TimerFires, ThumbnailError 2, Click 4] module_loaded) = Selected (DATASETS ! 4)"
    by (simp add: selection_of_def module_loaded_def handleCardClick_ref_def DATASETS_def)
  moreover have "selection_of (step (Click 4) (run [Click 0, TimerFires, ThumbnailError 2] module_loaded)) =
        fst (handleCardClick (DATASETS ! 4) (selection_of (run [Click 0, TimerFires, ThumbnailError 2] module_loaded)))"
    using t' l by blast
  ultimately show ?thesis
    using m0 m4 ne l by blast
qed

text \<open>
  C8: Among the tags of a card, those that truncate their text are at most two: they are
  the last path segments of the first two topics under \<open>transforms\<close>, in that
  order (none when the descriptor has no such category). A topic always has a last
  segment: \<open>split\<close> returns at least one piece.
\<close>

theorem C8_at_most_two_truncated_tags:
  "length (filter truncated (tag_row (DatasetCard d a h))) \<le> 2
   \<and> map texts (filter truncated (tag_row (DatasetCard d a h))) =
       map (\<lambda>topic. [last (split topic CHR ''/'')])
         (take 2 (case map_of (topics d) ''transforms'' of None \<Rightarrow> [] | Some ts \<Rightarrow> ts))
   \<and> split topic CHR ''/'' \<noteq> []"
  by (simp add: DatasetCard_tag_row topic_tags_truncated tactile_tag_not_truncated split_not_Nil)
     (simp add: DatasetCard_topic_tags_def split: option.split)

theorem C8_at_most_two_truncated_tags_witness:
  "length (filter truncated (tag_row (DatasetCard (DATASETS ! 0) False (HandleCardClick (DATASETS ! 0))))) \<le> 2
   \<and> map texts (filter truncated (tag_row (DatasetCard (DATASETS ! 0) False (HandleCardClick (DATASETS ! 0)))))
       = [[''eef_pose''], [''eef_pose'']]"
  using C8_at_most_two_truncated_tags [of "DATASETS ! 0" False "HandleCardClick (DATASETS ! 0)"]
  by (simp add: DATASETS_def)

text \<open>
  C9: Both badge-style lookups return a style for every label: each of \<open>Genrobot\<close>,
  \<open>Lumos\<close> and \<open>DM Robot\<close> has a style of its own, and every other label, such as
  the catalog's \<open>DAIMON\<close>, gets the one default style, different from those three.
\<close>

theorem C9_badge_lookup_total:
  "getSourceBadgeClass_UmiGallery ''Genrobot'' = ''bg-emerald-100 text-emerald-700''
   \<and> getSourceBadgeClass_UmiGallery ''Lumos'' = ''bg-amber-100 text-amber-700''
   \<and> getSourceBadgeClass_UmiGallery ''DM Robot'' = ''bg-violet-100 text-violet-700''
   \<and> (s \<notin> {''Genrobot'', ''Lumos'', ''DM Robot''} \<longrightarrow>
        getSourceBadgeClass_UmiGallery s = ''bg-slate-100 text-slate-700'')
   \<and> distinct [getSourceBadgeClass_UmiGallery ''Genrobot'', getSourceBadgeClass_UmiGallery ''Lumos'',
        getSourceBadgeClass_UmiGallery ''DM Robot'', getSourceBadgeClass_UmiGallery ''DAIMON'']
   \<and> getSourceBadgeClass_DatasetCard ''Genrobot'' = ''bg-emerald-500/90 text-white''
   \<and> getSourceBadgeClass_DatasetCard ''Lumos'' = ''bg-amber-500/90 text-white''
   \<and> getSourceBadgeClass_DatasetCard ''DM Robot'' = ''bg-violet-500/90 text-white''
   \<and> (s \<notin> {''Genrobot'', ''Lumos'', ''DM Robot''} \<longrightarrow>
        getSourceBadgeClass_DatasetCard s = ''bg-slate-500/90 text-white'')
   \<and> distinct [getSourceBadgeClass_DatasetCard ''Genrobot'', getSourceBadgeClass_DatasetCard ''Lumos'',
        getSourceBadgeClass_DatasetCard ''DM Robot'', getSourceBadgeClass_DatasetCard ''DAIMON'']"
  by (simp add: getSourceBadgeClass_UmiGallery_def getSourceBadgeClass_DatasetCard_def)

theorem C9_badge_lookup_total_witness:
  "''DAIMON'' \<notin> {''Genrobot'', ''Lumos'', ''DM Robot''}
   \<and> getSourceBadgeClass_UmiGallery ''DAIMON'' = ''bg-slate-100 text-slate-700''
   \<and> getSourceBadgeClass_DatasetCard ''DAIMON'' = ''bg-slate-500/90 text-white''
   \<and> map (getSourceBadgeClass_DatasetCard \<circ> source) DATASETS =
        [''bg-emerald-500/90 text-white'', ''bg-emerald-500/90 text-white'',
         ''bg-slate-500/90 text-white'', ''bg-slate-500/90 text-white'',
         ''bg-amber-500/90 text-white'', ''bg-amber-500/90 text-white'']"
proof -
  have h: "''DAIMON'' \<notin> {''Genrobot'', ''Lumos'', ''DM Robot''}"
    by simp
  have "getSourceBadgeClass_UmiGallery ''DAIMON'' = ''bg-slate-100 text-slate-700''"
       "getSourceBadgeClass_DatasetCard ''DAIMON'' = ''bg-slate-500/90 text-white''"
    using C9_badge_lookup_total [of "''DAIMON''"] h by blast+
  moreover have "map (getSourceBadgeClass_DatasetCard \<circ> source) DATASETS =
        [''bg-emerald-500/90 text-white'', ''bg-emerald-500/90 text-white'',
         ''bg-slate-500/90 text-white'', ''bg-slate-500/90 text-white'',
         ''bg-amber-500/90 text-white'', ''bg-amber-500/90 text-white'']"
    by (simp add: DATASETS_def getSourceBadgeClass_DatasetCard_def)
  ultimately show ?thesis using h by blast
qed

text \<open>
  C10: The test of both adapters is the prefix check \<open>startsWith('http')\<close>: a reference
  whose first four characters are \<open>http\<close> is the resolved URL as it is, and any other
  reference that is not empty is what \<open>new URL(r, window.location.href).href\<close> gives,
  its exception included.
\<close>

theorem C10_http_prefix_check:
  "(startsWith r ''http'' \<longleftrightarrow> take 4 r = ''http'')
   \<and> (startsWith r ''http'' \<longrightarrow>
        RerunViewer_fullUrl (Str r) L = Normal (Str r) \<and> fullMcapUrl r L = Normal r)
   \<and> (r \<noteq> [] \<and> \<not> startsWith r ''http'' \<longrightarrow>
        RerunViewer_fullUrl (Str r) L = map_completion Str (URL_href r L)
        \<and> fullMcapUrl r L = URL_href r L)"
proof -
  have "startsWith r ''http'' \<longleftrightarrow> take 4 r = ''http''"
    unfolding startsWith_take by (simp add: eval_nat_numeral)
  then show ?thesis
    by (simp add: RerunViewer_fullUrl_http fullMcapUrl_http RerunViewer_fullUrl_other fullMcapUrl_other)
qed

theorem C10_http_prefix_check_witness:
  "scheme_of ''httpdocs/a.rrd'' = None
   \<and> startsWith ''httpdocs/a.rrd'' ''http''
   \<and> RerunViewer_fullUrl (Str ''httpdocs/a.rrd'') ''https://example.org/gallery/'' =
        Normal (Str ''httpdocs/a.rrd'')
   \<and> fullMcapUrl ''httpdocs/a.rrd'' ''https://example.org/gallery/'' = Normal ''httpdocs/a.rrd''
   \<and> scheme_of ''ftp://x/a.rrd'' = Some (''ftp'', ''//x/a.rrd'')
   \<and> ''ftp://x/a.rrd'' \<noteq> [] \<and> \<not> startsWith ''ftp://x/a.rrd'' ''http''
   \<and> RerunViewer_fullUrl (Str ''ftp://x/a.rrd'') ''https://example.org/gallery/'' =
        map_completion Str (URL_href ''ftp://x/a.rrd'' ''https://example.org/gallery/'')
   \<and> fullMcapUrl ''ftp://x/a.rrd'' ''https://example.org/gallery/'' =
        URL_href ''ftp://x/a.rrd'' ''https://example.org/gallery/''
   \<and> URL_href ''ftp://x/a.rrd'' ''https://example.org/gallery/'' = Normal ''ftp://x/a.rrd''"
proof -
  have s: "scheme_of ''httpdocs/a.rrd'' = None" "scheme_of ''ftp://x/a.rrd'' = Some (''ftp'', ''//x/a.rrd'')"
    by (simp_all add: scheme_of_def char_class_defs Let_def)
  have h1: "startsWith ''httpdocs/a.rrd'' ''http''" by simp
  have h2: "''ftp://x/a.rrd'' \<noteq> [] \<and> \<not> startsWith ''ftp://x/a.rrd'' ''http''" by simp
  have u: "URL_href ''ftp://x/a.rrd'' ''https://example.org/gallery/'' = Normal ''ftp://x/a.rrd''"
    by (rule href_ftp_any_base [OF parse_location])
  show ?thesis
    using s h1 h2 u
      C10_http_prefix_check [of "''httpdocs/a.rrd''" "''https://example.org/gallery/''"]
      C10_http_prefix_check [of "''ftp://x/a.rrd''" "''https://example.org/gallery/''"]
    by simp
qed

end
